theory Spec2Isabelle
  imports Complex_Main
begin

section \<open>Cohort analysis: the transaction-driven retention engine\<close>

text \<open>
  A shallow embedding of \<^verbatim>\<open>src/utils/cohortAnalysis.ts\<close> (the functions
  \<^verbatim>\<open>formatCohortName\<close>, \<^verbatim>\<open>getCohortStartDate\<close>, \<^verbatim>\<open>getMonthDifference\<close>,
  \<^verbatim>\<open>processTransactionData\<close>, \<^verbatim>\<open>getCustomerRevenueForMonth\<close> and
  \<^verbatim>\<open>calculateRealCohortAnalysis\<close>) together with the types of \<^verbatim>\<open>types.ts\<close>.

  Conventions of the embedding:
  \<^item> a JavaScript \<^verbatim>\<open>number\<close> holding a revenue is a \<^typ>\<open>real\<close> (exact arithmetic;
    rounding of doubles, \<^verbatim>\<open>NaN\<close> and infinities are outside the model);
  \<^item> a \<^verbatim>\<open>Date\<close> is its time value, the milliseconds since the epoch, an \<^typ>\<open>int\<close>
    (invalid dates and the clipping of time values beyond \<open>8.64e15\<close> are outside the model);
  \<^item> the local time zone of the host is a parameter \<open>tza\<close>, the offset of local time
    from UTC in milliseconds, constant over time (no daylight saving);
  \<^item> a \<^verbatim>\<open>Map\<close> is an association list in insertion order, which is the order in which
    \<^verbatim>\<open>Map.prototype.forEach\<close> visits it;
  \<^item> \<^verbatim>\<open>Array.prototype.sort\<close> is stable, as \<^const>\<open>sort_key\<close> is.
\<close>

subsection \<open>Time values and the calendar of the host\<close>

text \<open>
  The operations on \<^verbatim>\<open>Date\<close> that the source calls are those of the language, not of the
  repository. They are written here after the definitions of ECMA-262 (section
  "Time Values and Time Range" and following), under the names used there.
\<close>

type_synonym Date = int

definition msPerDay :: int where
  "msPerDay = 86400000"

definition Day :: "int \<Rightarrow> int" where
  "Day t = t div msPerDay"

definition TimeWithinDay :: "int \<Rightarrow> int" where
  "TimeWithinDay t = t mod msPerDay"

definition DaysInYear :: "int \<Rightarrow> int" where
  "DaysInYear y =
     (if y mod 4 \<noteq> 0 then 365
      else if y mod 100 \<noteq> 0 then 366
      else if y mod 400 \<noteq> 0 then 365
      else 366)"

definition DayFromYear :: "int \<Rightarrow> int" where
  "DayFromYear y =
     365 * (y - 1970) + (y - 1969) div 4 - (y - 1901) div 100 + (y - 1601) div 400"

text \<open>
  \<open>YearFromTime t\<close> is the year \<open>y\<close> with \<open>DayFromYear y \<le> Day t < DayFromYear (y + 1)\<close>.
  It is computed from the mean length of a year (146097 days in 400 years), which is off
  by at most one year, and then adjusted.
\<close>

definition YearFromTime :: "int \<Rightarrow> int" where
  "YearFromTime t =
     (let d = Day t;
          y0 = 1970 + (d * 400) div 146097
      in if DayFromYear (y0 + 1) \<le> d then y0 + 1
         else if d < DayFromYear y0 then y0 - 1
         else y0)"

definition InLeapYear :: "int \<Rightarrow> int" where
  "InLeapYear t = (if DaysInYear (YearFromTime t) = 366 then 1 else 0)"

definition DayWithinYear :: "int \<Rightarrow> int" where
  "DayWithinYear t = Day t - DayFromYear (YearFromTime t)"

definition MonthFromTime :: "int \<Rightarrow> int" where
  "MonthFromTime t =
     (let d = DayWithinYear t; l = InLeapYear t
      in if d < 31 then 0
         else if d < 59 + l then 1
         else if d < 90 + l then 2
         else if d < 120 + l then 3
         else if d < 151 + l then 4
         else if d < 181 + l then 5
         else if d < 212 + l then 6
         else if d < 243 + l then 7
         else if d < 273 + l then 8
         else if d < 304 + l then 9
         else if d < 334 + l then 10
         else 11)"

text \<open>The number of days of a year that lie before its month \<open>m\<close> (0 is January).\<close>

definition daysBeforeMonth :: "int \<Rightarrow> int \<Rightarrow> int" where
  "daysBeforeMonth l m =
     (if m = 0 then 0
      else if m = 1 then 31
      else if m = 2 then 59 + l
      else if m = 3 then 90 + l
      else if m = 4 then 120 + l
      else if m = 5 then 151 + l
      else if m = 6 then 181 + l
      else if m = 7 then 212 + l
      else if m = 8 then 243 + l
      else if m = 9 then 273 + l
      else if m = 10 then 304 + l
      else 334 + l)"

definition DateFromTime :: "int \<Rightarrow> int" where
  "DateFromTime t = DayWithinYear t + 1 - daysBeforeMonth (InLeapYear t) (MonthFromTime t)"

definition MakeDay :: "int \<Rightarrow> int \<Rightarrow> int \<Rightarrow> int" where
  "MakeDay year month date =
     (let ym = year + month div 12;
          mn = month mod 12;
          l = (if DaysInYear ym = 366 then 1 else 0)
      in DayFromYear ym + daysBeforeMonth l mn + date - 1)"

definition MakeDate :: "int \<Rightarrow> int \<Rightarrow> int" where
  "MakeDate day time = day * msPerDay + time"

definition LocalTime :: "int \<Rightarrow> int \<Rightarrow> int" where
  "LocalTime tza t = t + tza"

definition UTC :: "int \<Rightarrow> int \<Rightarrow> int" where
  "UTC tza t = t - tza"

text \<open>
  A date string of the form \<^verbatim>\<open>YYYY-MM-DD\<close>, which is what the transaction parser emits
  (\<^verbatim>\<open>toISOString().split('T')[0]\<close>), is kept as its three numbers, those of a day of the
  calendar (a string that is no date gives an invalid \<^verbatim>\<open>Date\<close>, which is outside the
  model). \<^verbatim>\<open>new Date(s)\<close> reads a date-only string as midnight UTC.
\<close>

record IsoDate =
  isoYear :: int
  isoMonth :: int
  isoDay :: int

definition newDateIso :: "IsoDate \<Rightarrow> Date" where
  "newDateIso s = MakeDate (MakeDay (isoYear s) (isoMonth s - 1) (isoDay s)) 0"

text \<open>\<^verbatim>\<open>new Date(year, month, day)\<close>: local midnight; a year from 0 to 99 means 1900 + year.\<close>

definition newDateLocal :: "int \<Rightarrow> int \<Rightarrow> int \<Rightarrow> int \<Rightarrow> Date" where
  "newDateLocal tza year month date =
     (let yr = (if 0 \<le> year \<and> year \<le> 99 then 1900 + year else year)
      in UTC tza (MakeDate (MakeDay yr month date) 0))"

definition getFullYear :: "int \<Rightarrow> Date \<Rightarrow> int" where
  "getFullYear tza d = YearFromTime (LocalTime tza d)"

definition getMonth :: "int \<Rightarrow> Date \<Rightarrow> int" where
  "getMonth tza d = MonthFromTime (LocalTime tza d)"

text \<open>\<^verbatim>\<open>d.setMonth(month)\<close>: the local year, day of the month and time of day are kept.\<close>

definition setMonth :: "int \<Rightarrow> Date \<Rightarrow> int \<Rightarrow> Date" where
  "setMonth tza d month =
     (let t = LocalTime tza d
      in UTC tza (MakeDate (MakeDay (YearFromTime t) month (DateFromTime t)) (TimeWithinDay t)))"

subsection \<open>Strings\<close>

text \<open>The decimal digit \<open>n\<close>, for \<open>n\<close> from 0 to 9.\<close>

definition digitChar :: "nat \<Rightarrow> char" where
  "digitChar n = ''0123456789'' ! n"

fun natToString :: "nat \<Rightarrow> string" where
  "natToString n = (if n < 10 then [digitChar n] else natToString (n div 10) @ [digitChar (n mod 10)])"

declare natToString.simps [simp del]

text \<open>\<^verbatim>\<open>String(n)\<close> and \<^verbatim>\<open>`${n}`\<close> for an integer \<open>n\<close>.\<close>

definition toString :: "int \<Rightarrow> string" where
  "toString n = (if n < 0 then ''-'' @ natToString (nat (- n)) else natToString (nat n))"

text \<open>\<^verbatim>\<open>s.padStart(n, p)\<close>.\<close>

definition padStart :: "nat \<Rightarrow> string \<Rightarrow> string \<Rightarrow> string" where
  "padStart n p s =
     (if n \<le> length s \<or> p = [] then s
      else take (n - length s) (concat (replicate (n - length s) p)) @ s)"

subsection \<open>Period normalizer\<close>



definition formatCohortName :: "int \<Rightarrow> Date \<Rightarrow> string \<Rightarrow> string" where
  "formatCohortName tza date cohortType =
     (let year = getFullYear tza date;
          month = getMonth tza date
      in if cohortType = ''month'' then
           toString year @ ''-'' @ padStart 2 ''0'' (toString (month + 1))
         else if cohortType = ''quarter'' then
           (let quarter = month div 3 + 1 in ''Q'' @ toString quarter @ '' '' @ toString year)
         else if cohortType = ''year'' then
           toString year
         else
           ''Q'' @ toString (month div 3 + 1) @ '' '' @ toString year)"

definition getCohortStartDate :: "int \<Rightarrow> Date \<Rightarrow> string \<Rightarrow> Date" where
  "getCohortStartDate tza date cohortType =
     (let year = getFullYear tza date;
          month = getMonth tza date
      in if cohortType = ''month'' then
           newDateLocal tza year month 1
         else if cohortType = ''quarter'' then
           (let quarterStartMonth = month div 3 * 3 in newDateLocal tza year quarterStartMonth 1)
         else if cohortType = ''year'' then
           newDateLocal tza year 0 1
         else
           (let defaultQuarterStartMonth = month div 3 * 3
            in newDateLocal tza year defaultQuarterStartMonth 1))"

definition getMonthDifference :: "int \<Rightarrow> Date \<Rightarrow> Date \<Rightarrow> int" where
  "getMonthDifference tza cohortDate dataDate =
     (let cohortYear = getFullYear tza cohortDate;
          cohortMonth = getMonth tza cohortDate;
          dataYear = getFullYear tza dataDate;
          dataMonth = getMonth tza dataDate
      in (dataYear - cohortYear) * 12 + (dataMonth - cohortMonth))"

subsection \<open>Data model (\<^verbatim>\<open>types.ts\<close>)\<close>

datatype TransactionType = New | Expansion | Contraction | Churn | Renewal

record TransactionData =
  accountId :: string
  transactionDate :: IsoDate
  arr :: real
  transactionType :: TransactionType
  previousARR :: "real option"

record CustomerData =
  accountId :: string
  closeDate :: IsoDate
  arr :: real

record CustomerSummary =
  accountId :: string
  firstTransactionDate :: IsoDate
  transactions :: "TransactionData list"
  currentARR :: real
  isActive :: bool
  cohortName :: string

text \<open>
  \<^verbatim>\<open>retentionByMonth\<close> is an object with the month offsets as keys: the list of its
  entries in the order in which they are assigned.
\<close>

record CohortData =
  cohortName :: string
  cohortDate :: Date
  initialRevenue :: real
  customers :: "CustomerData list"
  retentionByMonth :: "(nat \<times> real) list"

record CohortAnalysis =
  cohorts :: "CohortData list"
  maxMonths :: nat

record AnalysisSettings =
  includeExpansionARR :: bool
  excludeChurnedAccounts :: bool

subsection \<open>Customer aggregator\<close>

text \<open>
  \<^verbatim>\<open>if (!m.has(k)) m.set(k, []); m.get(k).push(v)\<close> on a \<^verbatim>\<open>Map\<close>: a new key goes to the
  end of the iteration order, a known key keeps its place.
\<close>

fun mapPush :: "'k \<Rightarrow> 'v \<Rightarrow> ('k \<times> 'v list) list \<Rightarrow> ('k \<times> 'v list) list" where
  "mapPush k v [] = [(k, [v])]"
| "mapPush k v ((k', vs) # m) =
     (if k' = k then (k', vs @ [v]) # m else (k', vs) # mapPush k v m)"

definition customerMapOf :: "TransactionData list \<Rightarrow> (string \<times> TransactionData list) list" where
  "customerMapOf transactionList =
     foldl (\<lambda>customerMap transaction.
              mapPush (TransactionData.accountId transaction) transaction customerMap)
       [] transactionList"

definition customerSummaryOf :: "string \<times> TransactionData list \<Rightarrow> CustomerSummary" where
  "customerSummaryOf = (\<lambda>(accountId, customerTransactions).
     let sortedTransactions =
           sort_key (\<lambda>t. newDateIso (transactionDate t)) customerTransactions;
         firstTransaction = hd sortedTransactions;
         lastTransaction = last sortedTransactions;
         isActive = (transactionType lastTransaction \<noteq> Churn
                     \<and> TransactionData.arr lastTransaction > 0);
         currentARR = (if isActive then TransactionData.arr lastTransaction else 0)
     in \<lparr> CustomerSummary.accountId = accountId,
          firstTransactionDate = transactionDate firstTransaction,
          transactions = sortedTransactions,
          currentARR = currentARR,
          isActive = isActive,
          CustomerSummary.cohortName = [] \<rparr>)"

definition processTransactionData :: "TransactionData list \<Rightarrow> CustomerSummary list" where
  "processTransactionData transactionList =
     map customerSummaryOf (customerMapOf transactionList)"

subsection \<open>Retention calculator\<close>

definition relevantTransactions :: "CustomerSummary \<Rightarrow> Date \<Rightarrow> TransactionData list" where
  "relevantTransactions customer targetDate =
     filter (\<lambda>t. newDateIso (transactionDate t) \<le> targetDate) (transactions customer)"

definition originalTransaction :: "CustomerSummary \<Rightarrow> TransactionData option" where
  "originalTransaction customer =
     find (\<lambda>t. TransactionData.arr t > 0 \<and> transactionType t = New) (transactions customer)"

definition getCustomerRevenueForMonth ::
  "CustomerSummary \<Rightarrow> Date \<Rightarrow> AnalysisSettings \<Rightarrow> real" where
  "getCustomerRevenueForMonth customer targetDate settings =
     (if length (relevantTransactions customer targetDate) = 0 then 0
      else
        let latestTransaction = last (relevantTransactions customer targetDate)
        in if transactionType latestTransaction = Churn then
             (if excludeChurnedAccounts settings then 0 else 0)
           else
             let revenue = TransactionData.arr latestTransaction;
                 revenue =
                   (if \<not> includeExpansionARR settings then
                      let originalARR =
                            (case originalTransaction customer of
                               Some t \<Rightarrow> TransactionData.arr t
                             | None \<Rightarrow> revenue)
                      in min revenue originalARR
                    else revenue)
             in max revenue 0)"

text \<open>The \<^verbatim>\<open>reduce\<close> that computes the revenue of month 0.\<close>

definition initialRevenueOf :: "CustomerSummary list \<Rightarrow> real" where
  "initialRevenueOf cohortCustomers =
     foldl (\<lambda>sum customer.
              let firstTransaction = find (\<lambda>t. transactionType t = New) (transactions customer)
              in sum + (case firstTransaction of
                          Some t \<Rightarrow> TransactionData.arr t
                        | None \<Rightarrow> 0))
       0 cohortCustomers"

definition totalRevenueOf ::
  "CustomerSummary list \<Rightarrow> Date \<Rightarrow> AnalysisSettings \<Rightarrow> real" where
  "totalRevenueOf cohortCustomers targetDate settings =
     foldl (\<lambda>totalRevenue customer.
              totalRevenue + getCustomerRevenueForMonth customer targetDate settings)
       0 cohortCustomers"

text \<open>
  One round of the loop over \<^verbatim>\<open>monthOffset\<close>; the state is \<^verbatim>\<open>retentionByMonth\<close> and
  the variable \<^verbatim>\<open>maxMonths\<close>, which is shared by all cohorts.
\<close>

definition monthStep ::
  "int \<Rightarrow> Date \<Rightarrow> CustomerSummary list \<Rightarrow> AnalysisSettings \<Rightarrow>
   (nat \<times> real) list \<times> nat \<Rightarrow> nat \<Rightarrow> (nat \<times> real) list \<times> nat" where
  "monthStep tza cohortStartDate cohortCustomers settings = (\<lambda>(retentionByMonth, maxMonths) monthOffset.
     let targetDate = setMonth tza cohortStartDate (getMonth tza cohortStartDate + int monthOffset);
         totalRevenue = totalRevenueOf cohortCustomers targetDate settings
     in (retentionByMonth @ [(monthOffset, totalRevenue)],
         if totalRevenue > 0 then max maxMonths monthOffset else maxMonths))"

text \<open>One round of \<^verbatim>\<open>cohortGroups.forEach\<close>; the state is \<^verbatim>\<open>cohorts\<close> and \<^verbatim>\<open>maxMonths\<close>.\<close>

definition cohortStep ::
  "int \<Rightarrow> string \<Rightarrow> AnalysisSettings \<Rightarrow>
   CohortData list \<times> nat \<Rightarrow> string \<times> CustomerSummary list \<Rightarrow> CohortData list \<times> nat" where
  "cohortStep tza cohortType settings = (\<lambda>(cohorts, maxMonths) (cohortName, cohortCustomers).
     let cohortStartDate =
           getCohortStartDate tza (newDateIso (firstTransactionDate (hd cohortCustomers))) cohortType;
         initialRevenue = initialRevenueOf cohortCustomers;
         (retentionByMonth, maxMonths) =
           foldl (monthStep tza cohortStartDate cohortCustomers settings)
             ([(0, initialRevenue)], maxMonths) [1..<25];
         customerData =
           map (\<lambda>cs. \<lparr> CustomerData.accountId = CustomerSummary.accountId cs,
                        closeDate = firstTransactionDate cs,
                        CustomerData.arr = currentARR cs \<rparr>) cohortCustomers
     in (cohorts @ [\<lparr> CohortData.cohortName = cohortName,
                       cohortDate = cohortStartDate,
                       initialRevenue = initialRevenue,
                       customers = customerData,
                       retentionByMonth = retentionByMonth \<rparr>],
         maxMonths))"

text \<open>The grouping of the customers by the name of their cohort.\<close>

definition cohortGroupsOf ::
  "int \<Rightarrow> string \<Rightarrow> CustomerSummary list \<Rightarrow> (string \<times> CustomerSummary list) list" where
  "cohortGroupsOf tza cohortType customerList =
     foldl (\<lambda>cohortGroups customer.
              let firstTransactionDate = newDateIso (firstTransactionDate customer);
                  cohortStartDate = getCohortStartDate tza firstTransactionDate cohortType;
                  cohortName = formatCohortName tza cohortStartDate cohortType
              in mapPush cohortName (customer\<lparr> CustomerSummary.cohortName := cohortName \<rparr>)
                   cohortGroups)
       [] customerList"

definition calculateRealCohortAnalysis ::
  "int \<Rightarrow> TransactionData list \<Rightarrow> string \<Rightarrow> AnalysisSettings \<Rightarrow> CohortAnalysis" where
  "calculateRealCohortAnalysis tza transactionList cohortType settings =
     (let customers = processTransactionData transactionList;
          cohortGroups = cohortGroupsOf tza cohortType customers;
          (cohorts, maxMonths) = foldl (cohortStep tza cohortType settings) ([], 0) cohortGroups
      in \<lparr> cohorts = sort_key cohortDate cohorts,
           maxMonths = min maxMonths 24 \<rparr>)"

subsection \<open>Closed forms of the two loops\<close>

text \<open>
  The following definitions are not in the source. They name what the loops of
  \<^verbatim>\<open>calculateRealCohortAnalysis\<close> compute, so that the lemmas below can say it:
  the total of one month, the running maximum, and the record pushed for one group.
\<close>

definition monthTotal ::
  "int \<Rightarrow> Date \<Rightarrow> CustomerSummary list \<Rightarrow> AnalysisSettings \<Rightarrow> nat \<Rightarrow> real" where
  "monthTotal tza cohortStartDate cohortCustomers settings monthOffset =
     totalRevenueOf cohortCustomers
       (setMonth tza cohortStartDate (getMonth tza cohortStartDate + int monthOffset)) settings"

definition raiseMaxMonths :: "(nat \<Rightarrow> real) \<Rightarrow> nat \<Rightarrow> nat list \<Rightarrow> nat" where
  "raiseMaxMonths f m ks = foldl (\<lambda>m k. if f k > 0 then max m k else m) m ks"

definition groupStartDate :: "int \<Rightarrow> string \<Rightarrow> CustomerSummary list \<Rightarrow> Date" where
  "groupStartDate tza cohortType cohortCustomers =
     getCohortStartDate tza (newDateIso (firstTransactionDate (hd cohortCustomers))) cohortType"

definition cohortDataOf ::
  "int \<Rightarrow> string \<Rightarrow> AnalysisSettings \<Rightarrow> string \<times> CustomerSummary list \<Rightarrow> CohortData" where
  "cohortDataOf tza cohortType settings = (\<lambda>(name, members).
     \<lparr> CohortData.cohortName = name,
       cohortDate = groupStartDate tza cohortType members,
       initialRevenue = initialRevenueOf members,
       customers = map (\<lambda>cs. \<lparr> CustomerData.accountId = CustomerSummary.accountId cs,
                                 closeDate = firstTransactionDate cs,
                                 CustomerData.arr = currentARR cs \<rparr>) members,
       retentionByMonth =
         (0, initialRevenueOf members) #
         map (\<lambda>k. (k, monthTotal tza (groupStartDate tza cohortType members) members settings k))
           [1..<25] \<rparr>)"

definition groupMaxMonths ::
  "int \<Rightarrow> string \<Rightarrow> AnalysisSettings \<Rightarrow> nat \<Rightarrow> string \<times> CustomerSummary list \<Rightarrow> nat" where
  "groupMaxMonths tza cohortType settings m = (\<lambda>(name, members).
     raiseMaxMonths (monthTotal tza (groupStartDate tza cohortType members) members settings)
       m [1..<25])"

text \<open>Two decimal digits, as in the \<^verbatim>\<open>MM\<close> of a label.\<close>

definition twoDigits :: "int \<Rightarrow> string" where
  "twoDigits n = [digitChar (nat n div 10), digitChar (nat n mod 10)]"

subsection \<open>Inputs of the scenarios\<close>

definition newTx :: "string \<Rightarrow> int \<Rightarrow> int \<Rightarrow> int \<Rightarrow> real \<Rightarrow> TransactionType \<Rightarrow> TransactionData" where
  "newTx a y m d r k =
     \<lparr> TransactionData.accountId = a,
       transactionDate = \<lparr> isoYear = y, isoMonth = m, isoDay = d \<rparr>,
       TransactionData.arr = r, transactionType = k, previousARR = None \<rparr>"

text \<open>Customer A: new on 2023-01-01 with 1000, expansion on 2023-04-01 to 1500.\<close>

definition scenarioA :: "TransactionData list" where
  "scenarioA = [newTx ''A'' 2023 1 1 1000 New, newTx ''A'' 2023 4 1 1500 Expansion]"

definition customerA :: "string \<Rightarrow> CustomerSummary" where
  "customerA name =
     \<lparr> CustomerSummary.accountId = ''A'',
       firstTransactionDate = \<lparr> isoYear = 2023, isoMonth = 1, isoDay = 1 \<rparr>,
       transactions = scenarioA,
       currentARR = 1500,
       isActive = True,
       CustomerSummary.cohortName = name \<rparr>"

text \<open>Customer B: new on 2023-01-01 with 1000, churn on 2023-01-15.\<close>

definition scenarioB :: "TransactionData list" where
  "scenarioB = [newTx ''B'' 2023 1 1 1000 New, newTx ''B'' 2023 1 15 0 Churn]"

definition customerB :: "string \<Rightarrow> CustomerSummary" where
  "customerB name =
     \<lparr> CustomerSummary.accountId = ''B'',
       firstTransactionDate = \<lparr> isoYear = 2023, isoMonth = 1, isoDay = 1 \<rparr>,
       transactions = scenarioB,
       currentARR = 0,
       isActive = False,
       CustomerSummary.cohortName = name \<rparr>"

definition defaultSettings :: AnalysisSettings where
  "defaultSettings = \<lparr> includeExpansionARR = True, excludeChurnedAccounts = False \<rparr>"

text \<open>The report expected for customer A, quarterly cohorts and the default settings.\<close>

definition reportA :: CohortAnalysis where
  "reportA =
     \<lparr> cohorts =
         [\<lparr> CohortData.cohortName = ''Q1 2023'',
            cohortDate = 1672531200000,
            initialRevenue = 1000,
            customers =
              [\<lparr> CustomerData.accountId = ''A'',
                 closeDate = \<lparr> isoYear = 2023, isoMonth = 1, isoDay = 1 \<rparr>,
                 CustomerData.arr = 1500 \<rparr>],
            retentionByMonth =
              (0, 1000) # (1, 1000) # (2, 1000) # map (\<lambda>m. (m, 1500)) [3..<25] \<rparr>],
       maxMonths = 24 \<rparr>"

text \<open>The report for customer B and monthly cohorts.\<close>

definition reportB :: CohortAnalysis where
  "reportB =
     \<lparr> cohorts =
         [\<lparr> CohortData.cohortName = ''2023-01'',
            cohortDate = 1672531200000,
            initialRevenue = 1000,
            customers =
              [\<lparr> CustomerData.accountId = ''B'',
                 closeDate = \<lparr> isoYear = 2023, isoMonth = 1, isoDay = 1 \<rparr>,
                 CustomerData.arr = 0 \<rparr>],
            retentionByMonth = (0, 1000) # map (\<lambda>m. (m, 0)) [1..<25] \<rparr>],
       maxMonths = 0 \<rparr>"

text \<open>
  Two hosts away from UTC: five hours behind (\<open>UTC-5\<close>, the time of Bogota) and nine hours
  ahead (\<open>UTC+9\<close>, the time of Tokyo). Neither zone has daylight saving time.
\<close>

definition tzaBehind :: int where
  "tzaBehind = - 18000000"

definition tzaAhead :: int where
  "tzaAhead = 32400000"

section \<open>Properties\<close>

subsection \<open>The calendar\<close>

text \<open>
  The year of a time value is, as ECMA-262 defines it, the year whose first day is the
  last one at or before the day of the time value; the month is from 0 to 11.
\<close>

lemma MonthFromTime_range: "0 \<le> MonthFromTime t \<and> MonthFromTime t \<le> 11"
  by (simp add: MonthFromTime_def Let_def)

lemma div_bounds:
  fixes x k :: int
  assumes "0 < k"
  shows "k * (x div k) \<le> x" and "x - (k - 1) \<le> k * (x div k)"
proof -
  have eq: "k * (x div k) + x mod k = x"
    by simp
  have "0 \<le> x mod k" and "x mod k < k"
    using assms by simp_all
  with eq show "k * (x div k) \<le> x" and "x - (k - 1) \<le> k * (x div k)"
    by linarith+
qed

lemma DayFromYear_bounds:
  "146097 * y - 287811596 \<le> 400 * DayFromYear y \<and>
   400 * DayFromYear y \<le> 146097 * y - 287810501"
proof -
  define a where "a = (y - 1969) div 4"
  define b where "b = (y - 1901) div 100"
  define c where "c = (y - 1601) div 400"
  have a: "4 * a \<le> y - 1969" "y - 1972 \<le> 4 * a"
    using div_bounds [of 4 "y - 1969"] by (simp_all add: a_def)
  have b: "100 * b \<le> y - 1901" "y - 2000 \<le> 100 * b"
    using div_bounds [of 100 "y - 1901"] by (simp_all add: b_def)
  have c: "400 * c \<le> y - 1601" "y - 2000 \<le> 400 * c"
    using div_bounds [of 400 "y - 1601"] by (simp_all add: c_def)
  have eq: "400 * DayFromYear y = 146000 * y + 400 * a - 400 * b + 400 * c - 287620000"
    by (simp add: DayFromYear_def a_def b_def c_def)
  from a b c have lower: "146097 * y - 287811596 \<le> 146000 * y + 400 * a - 400 * b + 400 * c - 287620000"
    by linarith
  from a b c have upper: "146000 * y + 400 * a - 400 * b + 400 * c - 287620000 \<le> 146097 * y - 287810501"
    by linarith
  from lower upper show ?thesis
    unfolding eq ..
qed

lemma YearFromTime_spec:
  "DayFromYear (YearFromTime t) \<le> Day t \<and> Day t < DayFromYear (YearFromTime t + 1)"
proof -
  define d where "d = Day t"
  define q where "q = (d * 400) div 146097"
  have q: "146097 * q \<le> 400 * d" "400 * d - 146096 \<le> 146097 * q"
    using div_bounds [of 146097 "d * 400"] by (simp_all add: q_def)
  have "400 * DayFromYear (1969 + q) \<le> 146097 * q - 145508"
    using DayFromYear_bounds [of "1969 + q"] by (simp add: algebra_simps)
  with q have lo: "DayFromYear (1969 + q) \<le> d"
    by linarith
  have "146097 * q + 291688 \<le> 400 * DayFromYear (1972 + q)"
    using DayFromYear_bounds [of "1972 + q"] by (simp add: algebra_simps)
  with q have hi: "d < DayFromYear (1972 + q)"
    by linarith
  have "YearFromTime t =
          (if DayFromYear (1971 + q) \<le> d then 1971 + q
           else if d < DayFromYear (1970 + q) then 1969 + q else 1970 + q)"
    by (simp add: YearFromTime_def Let_def d_def q_def)
  then show ?thesis
    using lo hi unfolding d_def [symmetric] by (simp split: if_splits)
qed

text \<open>
  A year begins when the year before it ends, so the year of a day is unique. The first
  day of a month, built from a year and a month, has that year and that month:
  \<^const>\<open>MakeDay\<close> finds the day that ECMA-262 asks for.
\<close>

lemma div_step:
  fixes x k :: int
  assumes "0 < k"
  shows "(x + 1) div k = x div k + (if (x + 1) mod k = 0 then 1 else 0)"
proof -
  define q where "q = x div k"
  define r where "r = x mod k"
  have x: "x = r + q * k"
    by (simp add: q_def r_def)
  have r: "0 \<le> r" "r < k"
    using assms by (simp_all add: r_def)
  show ?thesis
  proof (cases "r + 1 = k")
    case True
    then have "x + 1 = (q + 1) * k"
      using x by (simp add: algebra_simps)
    then have "(x + 1) div k = q + 1" and "(x + 1) mod k = 0"
      using assms by simp_all
    then show ?thesis
      by (simp add: q_def)
  next
    case False
    with r have small: "0 \<le> r + 1" "r + 1 < k"
      by simp_all
    have x1: "x + 1 = (r + 1) + q * k"
      using x by simp
    have "((r + 1) + q * k) div k = q + (r + 1) div k"
      using assms by (intro div_mult_self1) simp
    also have "(r + 1) div k = 0"
      using small by (rule div_pos_pos_trivial)
    finally have d: "(x + 1) div k = q"
      unfolding x1 by simp
    have "((r + 1) + q * k) mod k = (r + 1) mod k"
      by (rule mod_mult_self1)
    also have "\<dots> = r + 1"
      using small by (rule mod_pos_pos_trivial)
    finally have m: "(x + 1) mod k = r + 1"
      unfolding x1 .
    from d m r show ?thesis
      by (simp add: q_def)
  qed
qed

lemma DayFromYear_Suc: "DayFromYear (y + 1) = DayFromYear y + DaysInYear y"
proof -
  have m4: "(y - 1969 + 1) mod 4 = 0 \<longleftrightarrow> y mod 4 = 0"
    using mod_mult_self1 [of y "- 492" 4] by simp
  have m100: "(y - 1901 + 1) mod 100 = 0 \<longleftrightarrow> y mod 100 = 0"
    using mod_mult_self1 [of y "- 19" 100] by simp
  have m400: "(y - 1601 + 1) mod 400 = 0 \<longleftrightarrow> y mod 400 = 0"
    using mod_mult_self1 [of y "- 4" 400] by simp
  have a: "(y + 1 - 1969) div 4 = (y - 1969) div 4 + (if y mod 4 = 0 then 1 else 0)"
    using div_step [of 4 "y - 1969"] m4 by (simp add: algebra_simps)
  have b: "(y + 1 - 1901) div 100 = (y - 1901) div 100 + (if y mod 100 = 0 then 1 else 0)"
    using div_step [of 100 "y - 1901"] m100 by (simp add: algebra_simps)
  have c: "(y + 1 - 1601) div 400 = (y - 1601) div 400 + (if y mod 400 = 0 then 1 else 0)"
    using div_step [of 400 "y - 1601"] m400 by (simp add: algebra_simps)
  have d100: "y mod 4 = 0" if "y mod 100 = 0"
  proof -
    from that have "100 dvd y" by (simp add: mod_eq_0_iff_dvd)
    moreover have "(4::int) dvd 100" by simp
    ultimately have "4 dvd y" by (metis dvd_trans)
    then show ?thesis by (simp add: mod_eq_0_iff_dvd)
  qed
  have d400: "y mod 100 = 0" if "y mod 400 = 0"
  proof -
    from that have "400 dvd y" by (simp add: mod_eq_0_iff_dvd)
    moreover have "(100::int) dvd 400" by simp
    ultimately have "100 dvd y" by (metis dvd_trans)
    then show ?thesis by (simp add: mod_eq_0_iff_dvd)
  qed
  have "DayFromYear (y + 1) =
          365 * (y - 1970) + 365 + (y + 1 - 1969) div 4 - (y + 1 - 1901) div 100
            + (y + 1 - 1601) div 400"
    by (simp add: DayFromYear_def algebra_simps)
  also have "\<dots> = DayFromYear y + DaysInYear y"
    unfolding a b c using d100 d400 by (auto simp: DayFromYear_def DaysInYear_def)
  finally show ?thesis .
qed

lemma DaysInYear_range: "365 \<le> DaysInYear y \<and> DaysInYear y \<le> 366"
  by (simp add: DaysInYear_def)

lemma DayFromYear_mono_nat: "DayFromYear y \<le> DayFromYear (y + int n)"
proof (induction n)
  case 0
  show ?case by simp
next
  case (Suc n)
  have "DayFromYear (y + int (Suc n)) = DayFromYear (y + int n) + DaysInYear (y + int n)"
    using DayFromYear_Suc [of "y + int n"] by (simp add: algebra_simps)
  with Suc DaysInYear_range [of "y + int n"] show ?case
    by linarith
qed

lemma DayFromYear_mono: "y \<le> y' \<Longrightarrow> DayFromYear y \<le> DayFromYear y'"
  using DayFromYear_mono_nat [of y "nat (y' - y)"] by simp

lemma YearFromTime_unique:
  assumes "DayFromYear y \<le> Day t" and "Day t < DayFromYear (y + 1)"
  shows "YearFromTime t = y"
proof (rule ccontr)
  assume neq: "YearFromTime t \<noteq> y"
  have spec: "DayFromYear (YearFromTime t) \<le> Day t" "Day t < DayFromYear (YearFromTime t + 1)"
    using YearFromTime_spec [of t] by simp_all
  show False
  proof (cases "YearFromTime t < y")
    case True
    then have "DayFromYear (YearFromTime t + 1) \<le> DayFromYear y"
      by (intro DayFromYear_mono) simp
    with spec assms show False by linarith
  next
    case False
    with neq have "DayFromYear (y + 1) \<le> DayFromYear (YearFromTime t)"
      by (intro DayFromYear_mono) simp
    with spec assms show False by linarith
  qed
qed

lemma month_of_daysBeforeMonth:
  assumes "0 \<le> m" and "m \<le> 11" and "l = 0 \<or> l = 1"
  shows "(let d = daysBeforeMonth l m
          in if d < 31 then 0
             else if d < 59 + l then 1
             else if d < 90 + l then 2
             else if d < 120 + l then 3
             else if d < 151 + l then 4
             else if d < 181 + l then 5
             else if d < 212 + l then 6
             else if d < 243 + l then 7
             else if d < 273 + l then 8
             else if d < 304 + l then 9
             else if d < 334 + l then 10
             else 11) = m"
  using assms by (auto simp: daysBeforeMonth_def Let_def) presburger+

lemma daysBeforeMonth_range:
  assumes "l = 0 \<or> l = 1"
  shows "0 \<le> daysBeforeMonth l m \<and> daysBeforeMonth l m \<le> 334 + l"
  using assms by (auto simp: daysBeforeMonth_def)

lemma Day_MakeDate:
  assumes "0 \<le> time" and "time < msPerDay"
  shows "Day (MakeDate day time) = day"
proof -
  have "(time + day * msPerDay) div msPerDay = day + time div msPerDay"
    by (intro div_mult_self1) (simp add: msPerDay_def)
  moreover have "time div msPerDay = 0"
    using assms by (rule div_pos_pos_trivial)
  ultimately show ?thesis
    by (simp add: Day_def MakeDate_def add.commute)
qed

lemma first_of_month:
  fixes y m time :: int
  assumes m: "0 \<le> m" "m \<le> 11" and time: "0 \<le> time" "time < msPerDay"
  defines "t \<equiv> MakeDate (MakeDay y m 1) time"
  shows "YearFromTime t = y" and "MonthFromTime t = m" and "DateFromTime t = 1"
proof -
  define l :: int where "l = (if DaysInYear y = 366 then 1 else 0)"
  have l: "l = 0 \<or> l = 1"
    by (simp add: l_def)
  have md: "m div 12 = 0" "m mod 12 = m"
    using m by simp_all
  have day: "Day t = DayFromYear y + daysBeforeMonth l m"
    unfolding t_def Day_MakeDate [OF time] by (simp add: MakeDay_def md l_def)
  have len: "DaysInYear y = 365 + l"
    by (auto simp: l_def DaysInYear_def)
  have lo: "DayFromYear y \<le> Day t"
    using daysBeforeMonth_range [OF l, of m] by (simp add: day)
  have hi: "Day t < DayFromYear (y + 1)"
    using daysBeforeMonth_range [OF l, of m] by (simp add: day DayFromYear_Suc len)
  show year: "YearFromTime t = y"
    using lo hi by (rule YearFromTime_unique)
  have leap: "InLeapYear t = l"
    by (simp add: InLeapYear_def year l_def)
  have within: "DayWithinYear t = daysBeforeMonth l m"
    by (simp add: DayWithinYear_def year day)
  show month: "MonthFromTime t = m"
    using month_of_daysBeforeMonth [OF m l] by (simp add: MonthFromTime_def leap within Let_def)
  show "DateFromTime t = 1"
    by (simp add: DateFromTime_def leap within month)
qed

lemma newDateLocal_fields:
  assumes "\<not> (0 \<le> y \<and> y \<le> 99)" and "0 \<le> m" and "m \<le> 11"
  shows "getFullYear tza (newDateLocal tza y m 1) = y \<and> getMonth tza (newDateLocal tza y m 1) = m"
proof -
  have local: "LocalTime tza (newDateLocal tza y m 1) = MakeDate (MakeDay y m 1) 0"
    using assms(1) by (auto simp: LocalTime_def newDateLocal_def UTC_def)
  have z: "(0::int) \<le> 0" "0 < msPerDay"
    by (simp_all add: msPerDay_def)
  show ?thesis
    unfolding getFullYear_def getMonth_def local
    using first_of_month(1,2) [OF assms(2,3) z] by simp
qed

subsection \<open>Digits and labels\<close>

lemma natToString_step:
  "10 \<le> n \<Longrightarrow> natToString n = natToString (n div 10) @ [digitChar (n mod 10)]"
  by (subst natToString.simps) simp

lemma natToString_digit:
  "n < 10 \<Longrightarrow> natToString n = [digitChar n]"
  by (subst natToString.simps) simp

lemma digitChar_0: "digitChar 0 = CHR ''0''"
  by (simp add: digitChar_def)

lemma padStart_month:
  assumes "1 \<le> n" and "n \<le> 12"
  shows "padStart 2 ''0'' (toString n) = twoDigits n"
proof (cases "n < 10")
  case True
  with assms have small: "nat n < 10" and tens: "nat n div 10 = 0" and units: "nat n mod 10 = nat n"
    by simp_all
  from assms show ?thesis
    by (simp add: padStart_def toString_def natToString_digit [OF small] twoDigits_def
          tens units digitChar_0)
next
  case False
  with assms have big: "10 \<le> nat n" and tens: "nat n div 10 < 10"
    by arith+
  from assms show ?thesis
    by (simp add: padStart_def toString_def natToString_step [OF big]
          natToString_digit [OF tens] twoDigits_def)
qed

lemma toString_quarter:
  assumes "1 \<le> n" and "n \<le> 4"
  shows "toString n = [digitChar (nat n)]"
  using assms by (simp add: toString_def natToString_digit)

lemma natToString_length_4:
  assumes "1000 \<le> n" and "n \<le> 9999"
  shows "length (natToString n) = 4"
proof -
  have a: "10 \<le> n" and b: "10 \<le> n div 10" and c: "10 \<le> n div 10 div 10"
    and d: "n div 10 div 10 div 10 < 10"
    using assms by arith+
  show ?thesis
    by (simp add: natToString_step [OF a] natToString_step [OF b] natToString_step [OF c]
          natToString_digit [OF d])
qed

lemma toString_year_length:
  "1000 \<le> y \<Longrightarrow> y \<le> 9999 \<Longrightarrow> length (toString y) = 4"
  by (simp add: toString_def natToString_length_4)

text \<open>
  The label of the start of a bucket is the label of every date in the bucket (for a
  local year outside 0 to 99, which the constructor of \<^verbatim>\<open>Date\<close> would move to the
  twentieth century).
\<close>

lemma label_of_bucket_start:
  assumes "\<not> (0 \<le> getFullYear tza d \<and> getFullYear tza d \<le> 99)"
  shows "formatCohortName tza (getCohortStartDate tza d g) g = formatCohortName tza d g"
proof -
  have r: "0 \<le> getMonth tza d" "getMonth tza d \<le> 11"
    using MonthFromTime_range [of "LocalTime tza d"] by (simp_all add: getMonth_def)
  have q: "0 \<le> getMonth tza d div 3 * 3" "getMonth tza d div 3 * 3 \<le> 11"
    using r by arith+
  have same: "getMonth tza d div 3 * 3 div 3 = getMonth tza d div 3"
    by simp
  note month = newDateLocal_fields [OF assms r, of tza]
  note quarter = newDateLocal_fields [OF assms q, of tza]
  note year = newDateLocal_fields [OF assms, of 0 tza, simplified]
  show ?thesis
    using month quarter year same
    by (simp add: formatCohortName_def getCohortStartDate_def Let_def)
qed

text \<open>
  A string that is none of the three takes the \<^verbatim>\<open>default\<close> branches, which compute
  what the branches of \<open>quarter\<close> compute.
\<close>

lemma formatCohortName_default:
  "g \<noteq> ''month'' \<Longrightarrow> g \<noteq> ''quarter'' \<Longrightarrow> g \<noteq> ''year'' \<Longrightarrow>
   formatCohortName tza d g = formatCohortName tza d ''quarter''"
  by (simp add: formatCohortName_def)

lemma getCohortStartDate_default:
  "g \<noteq> ''month'' \<Longrightarrow> g \<noteq> ''quarter'' \<Longrightarrow> g \<noteq> ''year'' \<Longrightarrow>
   getCohortStartDate tza d g = getCohortStartDate tza d ''quarter''"
  by (simp add: getCohortStartDate_def)

lemma analysis_default:
  assumes "g \<noteq> ''month''" and "g \<noteq> ''quarter''" and "g \<noteq> ''year''"
  shows "calculateRealCohortAnalysis tza txs g s = calculateRealCohortAnalysis tza txs ''quarter'' s"
proof -
  have f: "formatCohortName tza d g = formatCohortName tza d ''quarter''" for d
    using assms by (rule formatCohortName_default)
  have c: "getCohortStartDate tza d g = getCohortStartDate tza d ''quarter''" for d
    using assms by (rule getCohortStartDate_default)
  have groups: "cohortGroupsOf tza g cs = cohortGroupsOf tza ''quarter'' cs" for cs
    by (simp add: cohortGroupsOf_def f c)
  have step: "cohortStep tza g s = cohortStep tza ''quarter'' s"
    by (simp add: cohortStep_def c)
  show ?thesis
    by (simp add: calculateRealCohortAnalysis_def groups step)
qed

subsection \<open>The two loops in closed form\<close>

lemma foldl_monthStep:
  "foldl (monthStep tza d cs s) (r, m) ks =
     (r @ map (\<lambda>k. (k, monthTotal tza d cs s k)) ks, raiseMaxMonths (monthTotal tza d cs s) m ks)"
  by (induction ks arbitrary: r m)
     (simp_all add: monthStep_def monthTotal_def raiseMaxMonths_def Let_def)

lemma cohortStep_closed:
  "cohortStep tza g s (acc, m) grp =
     (acc @ [cohortDataOf tza g s grp], groupMaxMonths tza g s m grp)"
  by (cases grp)
     (simp add: cohortStep_def cohortDataOf_def groupMaxMonths_def groupStartDate_def
        foldl_monthStep Let_def)

lemma foldl_cohortStep:
  "foldl (cohortStep tza g s) (acc, m) groups =
     (acc @ map (cohortDataOf tza g s) groups, foldl (groupMaxMonths tza g s) m groups)"
  by (induction groups arbitrary: acc m) (simp_all add: cohortStep_closed)

lemma analysis_closed:
  "calculateRealCohortAnalysis tza txs g s =
     \<lparr> cohorts = sort_key cohortDate
                   (map (cohortDataOf tza g s) (cohortGroupsOf tza g (processTransactionData txs))),
       maxMonths = min (foldl (groupMaxMonths tza g s) 0
                          (cohortGroupsOf tza g (processTransactionData txs))) 24 \<rparr>"
  by (simp add: calculateRealCohortAnalysis_def foldl_cohortStep Let_def)

lemma foldl_plus_sum_list:
  "foldl (\<lambda>(sum::real) x. sum + f x) a xs = a + sum_list (map f xs)"
  by (induction xs arbitrary: a) simp_all

lemma initialRevenueOf_sum:
  "initialRevenueOf members =
     (\<Sum>customer\<leftarrow>members.
        case find (\<lambda>t. transactionType t = New) (transactions customer) of
          Some t \<Rightarrow> TransactionData.arr t | None \<Rightarrow> 0)"
  by (simp add: initialRevenueOf_def foldl_plus_sum_list Let_def)

lemma raiseMaxMonths_unchanged:
  "\<forall>k \<in> set ks. \<not> f k > 0 \<Longrightarrow> raiseMaxMonths f m ks = m"
  by (induction ks arbitrary: m) (simp_all add: raiseMaxMonths_def)

lemma map_of_keyed:
  "k \<in> set ks \<Longrightarrow> map_of (map (\<lambda>k. (k, f k)) ks) k = Some (f k)"
  by (induction ks) auto

lemma retention_lookup:
  "k \<in> set [1..<25] \<Longrightarrow>
   map_of (retentionByMonth (cohortDataOf tza g s (name, members))) k =
     Some (monthTotal tza (groupStartDate tza g members) members s k)"
  by (simp add: cohortDataOf_def map_of_keyed)

lemma retention_keys:
  "map fst (retentionByMonth (cohortDataOf tza g s grp)) = [0..<25]"
proof -
  have "map fst (map (\<lambda>k. (k, f k)) ks) = ks" for f :: "nat \<Rightarrow> real" and ks
    by (induction ks) simp_all
  then have "map fst (retentionByMonth (cohortDataOf tza g s grp)) = 0 # [1..<25]"
    by (cases grp) (simp add: cohortDataOf_def del: upt_Suc)
  also have "\<dots> = [0..<25]"
    by (simp add: upt_conv_Cons)
  finally show ?thesis .
qed

lemma foldl_groupMaxMonths_unchanged:
  "\<forall>grp \<in> set groups. groupMaxMonths tza g s m grp = m \<Longrightarrow>
   foldl (groupMaxMonths tza g s) m groups = m"
  by (induction groups) simp_all

subsection \<open>Groups and their order\<close>

text \<open>
  No group of a \<^verbatim>\<open>Map\<close> built by \<^const>\<open>mapPush\<close> is empty, so the reads of the element
  at index 0 (\<^verbatim>\<open>sortedTransactions[0]\<close>, \<^verbatim>\<open>cohortCustomers[0]\<close>) are in range.
\<close>

lemma mapPush_nonempty:
  "\<forall>p \<in> set m. snd p \<noteq> [] \<Longrightarrow> \<forall>p \<in> set (mapPush k v m). snd p \<noteq> []"
proof (induction m)
  case Nil
  show ?case by simp
next
  case (Cons e m)
  obtain k' vs where e: "e = (k', vs)" by (cases e)
  from Cons.prems have vs: "vs \<noteq> []" and rest: "\<forall>p \<in> set m. snd p \<noteq> []"
    by (simp_all add: e)
  from Cons.IH [OF rest] vs rest show ?case
    by (simp add: e)
qed

lemma foldl_mapPush_nonempty:
  "\<forall>p \<in> set m. snd p \<noteq> [] \<Longrightarrow>
   \<forall>p \<in> set (foldl (\<lambda>m x. mapPush (key x) (val x) m) m xs). snd p \<noteq> []"
proof (induction xs arbitrary: m)
  case Nil
  then show ?case by simp
next
  case (Cons x xs)
  have "\<forall>p \<in> set (mapPush (key x) (val x) m). snd p \<noteq> []"
    using Cons.prems by (rule mapPush_nonempty)
  then show ?case
    using Cons.IH by simp
qed

lemma customerMapOf_nonempty:
  "p \<in> set (customerMapOf txs) \<Longrightarrow> snd p \<noteq> []"
  using foldl_mapPush_nonempty [of "[]" TransactionData.accountId "\<lambda>t. t" txs]
  by (simp add: customerMapOf_def)

lemma cohortGroupsOf_nonempty:
  "p \<in> set (cohortGroupsOf tza g cs) \<Longrightarrow> snd p \<noteq> []"
  using foldl_mapPush_nonempty [of "[]"
      "\<lambda>c. formatCohortName tza (getCohortStartDate tza (newDateIso (firstTransactionDate c)) g) g"
      "\<lambda>c. c\<lparr> CustomerSummary.cohortName :=
               formatCohortName tza (getCohortStartDate tza (newDateIso (firstTransactionDate c)) g) g \<rparr>"
      cs]
  by (simp add: cohortGroupsOf_def Let_def)

text \<open>
  The transactions of a customer summary are in chronological order, so the last of those
  at or before a date is a chronologically latest one.
\<close>

lemma processTransactionData_sorted:
  "c \<in> set (processTransactionData txs) \<Longrightarrow>
   sorted (map (\<lambda>t. newDateIso (transactionDate t)) (transactions c))"
  by (auto simp: processTransactionData_def customerSummaryOf_def Let_def)

lemma latest_is_chronologically_last:
  assumes "sorted (map (\<lambda>t. newDateIso (transactionDate t)) (transactions c))"
    and "u \<in> set (relevantTransactions c d)"
  shows "newDateIso (transactionDate u)
           \<le> newDateIso (transactionDate (last (relevantTransactions c d)))"
proof -
  let ?f = "\<lambda>t. newDateIso (transactionDate t)"
  let ?rs = "relevantTransactions c d"
  have srt: "sorted (map ?f ?rs)"
    unfolding relevantTransactions_def using assms(1) by (rule sorted_filter)
  have ne: "?rs \<noteq> []"
    using assms(2) by auto
  obtain ys y where split: "?rs = ys @ [y]"
    using ne by (metis rev_exhaust)
  have "\<forall>x \<in> set ys. ?f x \<le> ?f y"
    using srt by (simp add: split sorted_append)
  then show ?thesis
    using assms(2) by (auto simp: split)
qed

subsection \<open>The settings\<close>

text \<open>The setting \<^verbatim>\<open>excludeChurnedAccounts\<close> is read in one place, where it decides nothing.\<close>

lemma getCustomerRevenueForMonth_cong:
  "includeExpansionARR s = includeExpansionARR s' \<Longrightarrow>
   getCustomerRevenueForMonth c d s = getCustomerRevenueForMonth c d s'"
  by (simp add: getCustomerRevenueForMonth_def Let_def)

lemma totalRevenueOf_cong:
  "includeExpansionARR s = includeExpansionARR s' \<Longrightarrow>
   totalRevenueOf cs d s = totalRevenueOf cs d s'"
  by (simp add: totalRevenueOf_def getCustomerRevenueForMonth_cong [of s s'])

lemma monthStep_cong:
  "includeExpansionARR s = includeExpansionARR s' \<Longrightarrow>
   monthStep tza d cs s = monthStep tza d cs s'"
  by (simp add: monthStep_def totalRevenueOf_cong [of s s'])

lemma cohortStep_cong:
  "includeExpansionARR s = includeExpansionARR s' \<Longrightarrow>
   cohortStep tza g s = cohortStep tza g s'"
  by (simp add: cohortStep_def monthStep_cong [of s s'])

lemma analysis_cong:
  "includeExpansionARR s = includeExpansionARR s' \<Longrightarrow>
   calculateRealCohortAnalysis tza txs g s = calculateRealCohortAnalysis tza txs g s'"
  by (simp add: calculateRealCohortAnalysis_def cohortStep_cong [of s s'])

text \<open>The original transaction, to which revenue is clipped when expansion is not counted.\<close>

lemma originalTransaction_positive:
  "originalTransaction c = Some t \<Longrightarrow> 0 < TransactionData.arr t"
  unfolding originalTransaction_def by (auto simp: find_Some_iff)

lemma no_original_no_clipping:
  assumes "originalTransaction c = None"
  shows "getCustomerRevenueForMonth c d s =
         getCustomerRevenueForMonth c d (s\<lparr> includeExpansionARR := True \<rparr>)"
  using assms by (simp add: getCustomerRevenueForMonth_def Let_def)

subsection \<open>The scenarios, evaluated\<close>

lemma upt_1_25:
  "[1..<25] =
     [1, 2, 3, 4, 5, 6, 7, 8, 9, 10, 11, 12, 13, 14, 15, 16, 17, 18, 19, 20, 21, 22, 23, 24 :: nat]"
  by code_simp

lemma upt_Suc0_25:
  "[Suc 0..<25] =
     [1, 2, 3, 4, 5, 6, 7, 8, 9, 10, 11, 12, 13, 14, 15, 16, 17, 18, 19, 20, 21, 22, 23, 24 :: nat]"
  using upt_1_25 by simp

lemma upt_3_25:
  "[3..<25] =
     [3, 4, 5, 6, 7, 8, 9, 10, 11, 12, 13, 14, 15, 16, 17, 18, 19, 20, 21, 22, 23, 24 :: nat]"
  by code_simp

lemma keyed_values:
  "map f ks = vs \<Longrightarrow> map (\<lambda>k. (k, f k)) ks = zip ks vs"
  by (induction ks arbitrary: vs) auto

lemma raiseMaxMonths_values:
  "map f ks = vs \<Longrightarrow>
   raiseMaxMonths f m ks = foldl (\<lambda>m (k, v). if 0 < v then max m k else m) m (zip ks vs)"
  by (induction ks arbitrary: vs m) (auto simp: raiseMaxMonths_def)

text \<open>The three dates of the scenarios, as time values.\<close>

lemma date_2023_01_01:
  "newDateIso \<lparr> isoYear = 2023, isoMonth = 1, isoDay = 1 \<rparr> = 1672531200000"
  by code_simp

lemma date_2023_01_15:
  "newDateIso \<lparr> isoYear = 2023, isoMonth = 1, isoDay = 15 \<rparr> = 1673740800000"
  by code_simp

lemma date_2023_04_01:
  "newDateIso \<lparr> isoYear = 2023, isoMonth = 4, isoDay = 1 \<rparr> = 1680307200000"
  by code_simp

lemmas scenario_dates = date_2023_01_01 date_2023_01_15 date_2023_04_01

lemma customerA_fields:
  "CustomerSummary.accountId (customerA n) = ''A''"
  "firstTransactionDate (customerA n) = \<lparr> isoYear = 2023, isoMonth = 1, isoDay = 1 \<rparr>"
  "transactions (customerA n) = scenarioA"
  "currentARR (customerA n) = 1500"
  by (simp_all add: customerA_def)

lemma customerB_fields:
  "CustomerSummary.accountId (customerB n) = ''B''"
  "firstTransactionDate (customerB n) = \<lparr> isoYear = 2023, isoMonth = 1, isoDay = 1 \<rparr>"
  "transactions (customerB n) = scenarioB"
  "currentARR (customerB n) = 0"
  by (simp_all add: customerB_def)

lemma processTransactionData_A: "processTransactionData scenarioA = [customerA []]"
  by (simp add: processTransactionData_def customerMapOf_def customerSummaryOf_def
        scenarioA_def customerA_def newTx_def scenario_dates)

lemma processTransactionData_B: "processTransactionData scenarioB = [customerB []]"
  by (simp add: processTransactionData_def customerMapOf_def customerSummaryOf_def
        scenarioB_def customerB_def newTx_def scenario_dates)

text \<open>Local time is UTC.\<close>

lemma start_utc_quarter: "getCohortStartDate 0 1672531200000 ''quarter'' = 1672531200000"
  by code_simp

lemma name_utc_quarter: "formatCohortName 0 1672531200000 ''quarter'' = ''Q1 2023''"
  by code_simp

lemma start_utc_month: "getCohortStartDate 0 1672531200000 ''month'' = 1672531200000"
  by code_simp

lemma name_utc_month: "formatCohortName 0 1672531200000 ''month'' = ''2023-01''"
  by code_simp

lemma year_utc: "getFullYear 0 1672531200000 = 2023"
  by code_simp

lemma month_utc: "getMonth 0 1672531200000 = 0"
  by code_simp

lemma toString_2023: "toString 2023 = ''2023''"
  by code_simp

lemma cohortGroupsOf_A_utc:
  "cohortGroupsOf 0 ''quarter'' [customerA []] = [(''Q1 2023'', [customerA ''Q1 2023''])]"
  by (simp add: cohortGroupsOf_def customerA_def scenario_dates start_utc_quarter
        name_utc_quarter Let_def)

lemma cohortGroupsOf_B_utc:
  "cohortGroupsOf 0 ''month'' [customerB []] = [(''2023-01'', [customerB ''2023-01''])]"
  by (simp add: cohortGroupsOf_def customerB_def scenario_dates start_utc_month
        name_utc_month Let_def)

lemma groupStartDate_A_utc: "groupStartDate 0 ''quarter'' [customerA n] = 1672531200000"
  by (simp add: groupStartDate_def customerA_fields scenario_dates start_utc_quarter)

lemma groupStartDate_B_utc: "groupStartDate 0 ''month'' [customerB n] = 1672531200000"
  by (simp add: groupStartDate_def customerB_fields scenario_dates start_utc_month)

lemma targets_utc:
  "map (\<lambda>k. setMonth 0 1672531200000 (getMonth 0 1672531200000 + int k)) [1..<25] =
     [1675209600000, 1677628800000, 1680307200000, 1682899200000, 1685577600000, 1688169600000,
      1690848000000, 1693526400000, 1696118400000, 1698796800000, 1701388800000, 1704067200000,
      1706745600000, 1709251200000, 1711929600000, 1714521600000, 1717200000000, 1719792000000,
      1722470400000, 1725148800000, 1727740800000, 1730419200000, 1733011200000, 1735689600000]"
  by code_simp

lemmas target_utc = targets_utc [unfolded upt_1_25, simplified]

lemma totalRevenueOf_A:
  "totalRevenueOf [customerA n] t \<lparr> includeExpansionARR = True, excludeChurnedAccounts = b \<rparr> =
     (if t < 1672531200000 then 0 else if t < 1680307200000 then 1000 else 1500)"
  by (simp add: totalRevenueOf_def getCustomerRevenueForMonth_def relevantTransactions_def
        customerA_def scenarioA_def newTx_def scenario_dates)

lemma totalRevenueOf_B:
  "totalRevenueOf [customerB n] t s =
     (if t < 1672531200000 then 0 else if t < 1673740800000 then 1000 else 0)"
  by (simp add: totalRevenueOf_def getCustomerRevenueForMonth_def relevantTransactions_def
        originalTransaction_def customerB_def scenarioB_def newTx_def scenario_dates)

lemma initialRevenueOf_A: "initialRevenueOf [customerA n] = 1000"
  by (simp add: initialRevenueOf_def customerA_def scenarioA_def newTx_def)

lemma initialRevenueOf_B: "initialRevenueOf [customerB n] = 1000"
  by (simp add: initialRevenueOf_def customerB_def scenarioB_def newTx_def)

lemma monthTotals_A_utc:
  "map (monthTotal 0 1672531200000 [customerA n]
          \<lparr> includeExpansionARR = True, excludeChurnedAccounts = b \<rparr>) [1..<25] =
     [1000, 1000, 1500, 1500, 1500, 1500, 1500, 1500, 1500, 1500, 1500, 1500,
      1500, 1500, 1500, 1500, 1500, 1500, 1500, 1500, 1500, 1500, 1500, 1500]"
  by (simp add: monthTotal_def target_utc totalRevenueOf_A upt_Suc0_25)

lemma monthTotal_B_utc:
  assumes "k \<in> set [1..<25]"
  shows "monthTotal 0 1672531200000 [customerB n] s k = 0"
  using assms unfolding upt_1_25
  by (auto simp: monthTotal_def target_utc totalRevenueOf_B)

lemma raise_A:
  "foldl (\<lambda>m (k, v). if 0 < v then max m k else m) 0
     (zip [1..<25]
        [1000, 1000, 1500, 1500, 1500, 1500, 1500, 1500, 1500, 1500, 1500, 1500,
         1500, 1500, 1500, 1500, 1500, 1500, 1500, 1500, 1500, 1500, 1500, 1500 :: real]) = 24"
  by (simp add: upt_Suc0_25)

lemma groupMaxMonths_A_utc:
  "groupMaxMonths 0 ''quarter'' \<lparr> includeExpansionARR = True, excludeChurnedAccounts = b \<rparr> 0
     (name, [customerA n]) = 24"
proof -
  have "groupMaxMonths 0 ''quarter'' \<lparr> includeExpansionARR = True, excludeChurnedAccounts = b \<rparr> 0
          (name, [customerA n]) =
        raiseMaxMonths (monthTotal 0 1672531200000 [customerA n]
          \<lparr> includeExpansionARR = True, excludeChurnedAccounts = b \<rparr>) 0 [1..<25]"
    by (simp only: groupMaxMonths_def prod.case groupStartDate_A_utc)
  also have "\<dots> = 24"
    by (simp only: raiseMaxMonths_values [OF monthTotals_A_utc] raise_A)
  finally show ?thesis .
qed

lemma groupMaxMonths_B_utc:
  "groupMaxMonths 0 ''month'' s 0 (name, [customerB n]) = 0"
proof -
  have "groupMaxMonths 0 ''month'' s 0 (name, [customerB n]) =
        raiseMaxMonths (monthTotal 0 1672531200000 [customerB n] s) 0 [1..<25]"
    by (simp only: groupMaxMonths_def prod.case groupStartDate_B_utc)
  also have "\<dots> = 0"
  proof (rule raiseMaxMonths_unchanged, rule ballI)
    fix k :: nat
    assume "k \<in> set [1..<25]"
    then have "monthTotal 0 1672531200000 [customerB n] s k = 0"
      by (rule monthTotal_B_utc)
    then show "\<not> 0 < monthTotal 0 1672531200000 [customerB n] s k"
      by simp
  qed
  finally show ?thesis .
qed

lemma retention_A_utc:
  "retentionByMonth (cohortDataOf 0 ''quarter''
      \<lparr> includeExpansionARR = True, excludeChurnedAccounts = b \<rparr> (name, [customerA n])) =
   (0, 1000) # (1, 1000) # (2, 1000) # map (\<lambda>m. (m, 1500)) [3..<25]"
proof -
  have "retentionByMonth (cohortDataOf 0 ''quarter''
          \<lparr> includeExpansionARR = True, excludeChurnedAccounts = b \<rparr> (name, [customerA n])) =
        (0, 1000) # map (\<lambda>k. (k, monthTotal 0 1672531200000 [customerA n]
          \<lparr> includeExpansionARR = True, excludeChurnedAccounts = b \<rparr> k)) [1..<25]"
    by (simp only: cohortDataOf_def prod.case groupStartDate_A_utc initialRevenueOf_A
          CohortData.simps)
  also have "\<dots> = (0, 1000) # zip [1..<25]
        [1000, 1000, 1500, 1500, 1500, 1500, 1500, 1500, 1500, 1500, 1500, 1500,
         1500, 1500, 1500, 1500, 1500, 1500, 1500, 1500, 1500, 1500, 1500, 1500]"
    by (simp only: keyed_values [OF monthTotals_A_utc])
  also have "\<dots> = (0, 1000) # (1, 1000) # (2, 1000) # map (\<lambda>m. (m, 1500)) [3..<25]"
    by (simp add: upt_Suc0_25 upt_3_25)
  finally show ?thesis .
qed

lemma retention_B_utc:
  "retentionByMonth (cohortDataOf 0 ''month'' s (name, [customerB n])) =
   (0, 1000) # map (\<lambda>m. (m, 0)) [1..<25]"
proof -
  have "retentionByMonth (cohortDataOf 0 ''month'' s (name, [customerB n])) =
        (0, 1000) # map (\<lambda>k. (k, monthTotal 0 1672531200000 [customerB n] s k)) [1..<25]"
    by (simp only: cohortDataOf_def prod.case groupStartDate_B_utc initialRevenueOf_B
          CohortData.simps)
  also have "map (\<lambda>k. (k, monthTotal 0 1672531200000 [customerB n] s k)) [1..<25] =
             map (\<lambda>m. (m, 0)) [1..<25]"
    by (rule map_cong [OF refl]) (simp only: monthTotal_B_utc)
  finally show ?thesis .
qed

lemma cohortDataOf_A_utc:
  "cohortDataOf 0 ''quarter'' \<lparr> includeExpansionARR = True, excludeChurnedAccounts = b \<rparr>
     (''Q1 2023'', [customerA n]) =
   \<lparr> CohortData.cohortName = ''Q1 2023'',
     cohortDate = 1672531200000,
     initialRevenue = 1000,
     customers =
       [\<lparr> CustomerData.accountId = ''A'',
          closeDate = \<lparr> isoYear = 2023, isoMonth = 1, isoDay = 1 \<rparr>,
          CustomerData.arr = 1500 \<rparr>],
     retentionByMonth = (0, 1000) # (1, 1000) # (2, 1000) # map (\<lambda>m. (m, 1500)) [3..<25] \<rparr>"
proof (rule CohortData.equality)
  show "retentionByMonth (cohortDataOf 0 ''quarter''
          \<lparr> includeExpansionARR = True, excludeChurnedAccounts = b \<rparr> (''Q1 2023'', [customerA n])) =
        retentionByMonth \<lparr> CohortData.cohortName = ''Q1 2023'',
     cohortDate = 1672531200000,
     initialRevenue = 1000,
     customers =
       [\<lparr> CustomerData.accountId = ''A'',
          closeDate = \<lparr> isoYear = 2023, isoMonth = 1, isoDay = 1 \<rparr>,
          CustomerData.arr = 1500 \<rparr>],
     retentionByMonth = (0, 1000) # (1, 1000) # (2, 1000) # map (\<lambda>m. (m, 1500)) [3..<25] \<rparr>"
    by (simp only: retention_A_utc CohortData.simps)
qed (simp_all add: cohortDataOf_def groupStartDate_A_utc initialRevenueOf_A customerA_fields)

lemma analysis_A_utc:
  "calculateRealCohortAnalysis 0 scenarioA ''quarter''
     \<lparr> includeExpansionARR = True, excludeChurnedAccounts = b \<rparr> = reportA"
  by (simp add: analysis_closed processTransactionData_A cohortGroupsOf_A_utc
        cohortDataOf_A_utc groupMaxMonths_A_utc reportA_def del: upt_Suc)

lemma cohortDataOf_B_utc:
  "cohortDataOf 0 ''month'' s (''2023-01'', [customerB n]) =
   \<lparr> CohortData.cohortName = ''2023-01'',
     cohortDate = 1672531200000,
     initialRevenue = 1000,
     customers =
       [\<lparr> CustomerData.accountId = ''B'',
          closeDate = \<lparr> isoYear = 2023, isoMonth = 1, isoDay = 1 \<rparr>,
          CustomerData.arr = 0 \<rparr>],
     retentionByMonth = (0, 1000) # map (\<lambda>m. (m, 0)) [1..<25] \<rparr>"
proof (rule CohortData.equality)
  show "retentionByMonth (cohortDataOf 0 ''month'' s (''2023-01'', [customerB n])) =
        retentionByMonth \<lparr> CohortData.cohortName = ''2023-01'',
     cohortDate = 1672531200000,
     initialRevenue = 1000,
     customers =
       [\<lparr> CustomerData.accountId = ''B'',
          closeDate = \<lparr> isoYear = 2023, isoMonth = 1, isoDay = 1 \<rparr>,
          CustomerData.arr = 0 \<rparr>],
     retentionByMonth = (0, 1000) # map (\<lambda>m. (m, 0)) [1..<25] \<rparr>"
    by (simp only: retention_B_utc CohortData.simps)
qed (simp_all add: cohortDataOf_def groupStartDate_B_utc initialRevenueOf_B customerB_fields)

lemma analysis_B_utc:
  "calculateRealCohortAnalysis 0 scenarioB ''month'' s = reportB"
  by (simp add: analysis_closed processTransactionData_B cohortGroupsOf_B_utc
        cohortDataOf_B_utc groupMaxMonths_B_utc reportB_def del: upt_Suc)

text \<open>Local time is five hours behind UTC: midnight UTC of 1 January is 31 December.\<close>

lemma start_behind:
  "getCohortStartDate tzaBehind 1672531200000 ''quarter'' = 1664600400000"
  by code_simp

lemma name_behind: "formatCohortName tzaBehind 1664600400000 ''quarter'' = ''Q4 2022''"
  by code_simp

lemma cohortGroupsOf_A_behind:
  "cohortGroupsOf tzaBehind ''quarter'' [customerA []] = [(''Q4 2022'', [customerA ''Q4 2022''])]"
  by (simp add: cohortGroupsOf_def customerA_def scenario_dates start_behind name_behind Let_def)

lemma names_A_behind:
  "map CohortData.cohortName
     (cohorts (calculateRealCohortAnalysis tzaBehind scenarioA ''quarter'' s)) = [''Q4 2022'']"
  by (simp add: analysis_closed processTransactionData_A cohortGroupsOf_A_behind cohortDataOf_def)

text \<open>
  Local time is nine hours ahead of UTC: local midnight of 1 April is 15:00 UTC of
  31 March, before the transaction of 1 April (midnight UTC).
\<close>

lemma start_ahead:
  "getCohortStartDate tzaAhead 1672531200000 ''quarter'' = 1672498800000"
  by code_simp

lemma name_ahead: "formatCohortName tzaAhead 1672498800000 ''quarter'' = ''Q1 2023''"
  by code_simp

lemma target_3_ahead:
  "setMonth tzaAhead 1672498800000 (getMonth tzaAhead 1672498800000 + 3) = 1680274800000"
  by code_simp

lemma cohortGroupsOf_A_ahead:
  "cohortGroupsOf tzaAhead ''quarter'' [customerA []] = [(''Q1 2023'', [customerA ''Q1 2023''])]"
  by (simp add: cohortGroupsOf_def customerA_def scenario_dates start_ahead name_ahead Let_def)

lemma groupStartDate_A_ahead: "groupStartDate tzaAhead ''quarter'' [customerA n] = 1672498800000"
  by (simp add: groupStartDate_def customerA_fields scenario_dates start_ahead)

lemma month_3_A_ahead:
  "map (\<lambda>c. map_of (retentionByMonth c) 3)
     (cohorts (calculateRealCohortAnalysis tzaAhead scenarioA ''quarter''
        \<lparr> includeExpansionARR = True, excludeChurnedAccounts = b \<rparr>)) = [Some 1000]"
proof -
  have "map_of (retentionByMonth (cohortDataOf tzaAhead ''quarter''
          \<lparr> includeExpansionARR = True, excludeChurnedAccounts = b \<rparr>
          (''Q1 2023'', [customerA ''Q1 2023'']))) 3 =
        Some (monthTotal tzaAhead 1672498800000 [customerA ''Q1 2023'']
          \<lparr> includeExpansionARR = True, excludeChurnedAccounts = b \<rparr> 3)"
    by (simp add: retention_lookup groupStartDate_A_ahead)
  also have "\<dots> = Some 1000"
    by (simp add: monthTotal_def target_3_ahead totalRevenueOf_A)
  finally show ?thesis
    by (simp add: analysis_closed processTransactionData_A cohortGroupsOf_A_ahead)
qed

subsection \<open>Month 0 of every cohort\<close>

text \<open>
  Claim C1. For every transaction sequence, cohort type and settings (and every time zone
  of the host), every cohort \<open>c\<close> of the report of \<^const>\<open>calculateRealCohortAnalysis\<close> has
  \<open>retentionByMonth[0] = initialRevenue\<close>. The cohort is the record of one group of
  \<^verbatim>\<open>cohortGroups\<close>, its \<open>customers\<close> are the members of that group, and
  \<open>initialRevenue\<close> is the sum, over these members, of the revenue of the member's first
  transaction of type \<open>new\<close>, a member without one adding 0.
\<close>

theorem month0_equals_initialRevenue:
  assumes "c \<in> set (cohorts (calculateRealCohortAnalysis tza txs g s))"
  shows "map_of (retentionByMonth c) 0 = Some (initialRevenue c) \<and>
         (\<exists>(name, members) \<in> set (cohortGroupsOf tza g (processTransactionData txs)).
            CohortData.cohortName c = name \<and>
            customers c =
              map (\<lambda>cs. \<lparr> CustomerData.accountId = CustomerSummary.accountId cs,
                           closeDate = firstTransactionDate cs,
                           CustomerData.arr = currentARR cs \<rparr>) members \<and>
            initialRevenue c =
              (\<Sum>customer\<leftarrow>members.
                 case find (\<lambda>t. transactionType t = New) (transactions customer) of
                   Some t \<Rightarrow> TransactionData.arr t | None \<Rightarrow> 0))"
proof -
  from assms obtain grp
    where grp: "grp \<in> set (cohortGroupsOf tza g (processTransactionData txs))"
      and c: "c = cohortDataOf tza g s grp"
    by (auto simp: analysis_closed)
  obtain name members where nm: "grp = (name, members)"
    by (cases grp)
  have zero: "map_of (retentionByMonth c) 0 = Some (initialRevenue c)"
    by (simp add: c nm cohortDataOf_def)
  have name: "CohortData.cohortName c = name"
    by (simp add: c nm cohortDataOf_def)
  have members: "customers c =
      map (\<lambda>cs. \<lparr> CustomerData.accountId = CustomerSummary.accountId cs,
                   closeDate = firstTransactionDate cs,
                   CustomerData.arr = currentARR cs \<rparr>) members"
    by (simp add: c nm cohortDataOf_def)
  have init: "initialRevenue c =
      (\<Sum>customer\<leftarrow>members.
         case find (\<lambda>t. transactionType t = New) (transactions customer) of
           Some t \<Rightarrow> TransactionData.arr t | None \<Rightarrow> 0)"
    by (simp add: c nm cohortDataOf_def initialRevenueOf_sum)
  from grp nm name members init
  have "\<exists>(name, members) \<in> set (cohortGroupsOf tza g (processTransactionData txs)).
            CohortData.cohortName c = name \<and>
            customers c =
              map (\<lambda>cs. \<lparr> CustomerData.accountId = CustomerSummary.accountId cs,
                           closeDate = firstTransactionDate cs,
                           CustomerData.arr = currentARR cs \<rparr>) members \<and>
            initialRevenue c =
              (\<Sum>customer\<leftarrow>members.
                 case find (\<lambda>t. transactionType t = New) (transactions customer) of
                   Some t \<Rightarrow> TransactionData.arr t | None \<Rightarrow> 0)"
    by blast
  with zero show ?thesis
    by (rule conjI)
qed

theorem month0_equals_initialRevenue_witness:
  "hd (cohorts reportA)
     \<in> set (cohorts (calculateRealCohortAnalysis 0 scenarioA ''quarter'' defaultSettings)) \<and>
   map_of (retentionByMonth (hd (cohorts reportA))) 0 = Some 1000 \<and>
   initialRevenue (hd (cohorts reportA)) = 1000"
proof -
  have mem: "hd (cohorts reportA)
      \<in> set (cohorts (calculateRealCohortAnalysis 0 scenarioA ''quarter'' defaultSettings))"
    by (simp add: defaultSettings_def analysis_A_utc) (simp add: reportA_def)
  have init: "initialRevenue (hd (cohorts reportA)) = 1000"
    by (simp add: reportA_def)
  from month0_equals_initialRevenue [OF mem] init mem show ?thesis
    by simp
qed

subsection \<open>Churn\<close>



subsection \<open>Expansion revenue\<close>

text \<open>
  Claim C3. With \<open>includeExpansionARR = false\<close>, for every customer who has a transaction
  of type \<open>new\<close> with positive revenue, and for every target date (so for the target date
  of every month offset), the contribution of the customer is at most the revenue of the
  first such transaction.
\<close>

theorem no_expansion_clips_to_original:
  assumes off: "\<not> includeExpansionARR s"
    and orig: "originalTransaction c = Some t"
  shows "getCustomerRevenueForMonth c d s \<le> TransactionData.arr t"
proof -
  have pos: "0 < TransactionData.arr t"
    using orig by (rule originalTransaction_positive)
  show ?thesis
  proof (cases "relevantTransactions c d = []")
    case True
    then have "getCustomerRevenueForMonth c d s = 0"
      by (simp add: getCustomerRevenueForMonth_def)
    with pos show ?thesis by simp
  next
    case False
    show ?thesis
    proof (cases "transactionType (last (relevantTransactions c d)) = Churn")
      case True
      with False have "getCustomerRevenueForMonth c d s = 0"
        by (simp add: getCustomerRevenueForMonth_def)
      with pos show ?thesis by simp
    next
      case notChurn: False
      have "getCustomerRevenueForMonth c d s =
              max (min (TransactionData.arr (last (relevantTransactions c d)))
                       (TransactionData.arr t)) 0"
        unfolding getCustomerRevenueForMonth_def Let_def
        using False notChurn off orig by simp
      with pos show ?thesis
        by (simp add: max_def min_def)
    qed
  qed
qed

theorem no_expansion_clips_to_original_witness:
  "\<not> includeExpansionARR \<lparr> includeExpansionARR = False, excludeChurnedAccounts = False \<rparr> \<and>
   originalTransaction (customerA []) = Some (newTx ''A'' 2023 1 1 1000 New) \<and>
   getCustomerRevenueForMonth (customerA []) 1680307200000
     \<lparr> includeExpansionARR = False, excludeChurnedAccounts = False \<rparr> \<le> 1000"
proof -
  have off: "\<not> includeExpansionARR \<lparr> includeExpansionARR = False, excludeChurnedAccounts = False \<rparr>"
    by simp
  have orig: "originalTransaction (customerA []) = Some (newTx ''A'' 2023 1 1 1000 New)"
    by (simp add: originalTransaction_def customerA_fields) (simp add: scenarioA_def newTx_def)
  have "TransactionData.arr (newTx ''A'' 2023 1 1 1000 New) = 1000"
    by (simp add: newTx_def)
  with no_expansion_clips_to_original [OF off orig, of 1680307200000] off orig show ?thesis
    by simp
qed

subsection \<open>The scenario of customer A\<close>

text \<open>
  On a host whose local time is UTC the scenario gives what is expected: one cohort,
  labelled \<open>Q1 2023\<close>, with \<open>initialRevenue = 1000\<close>, 1000 at the offsets 0, 1 and 2,
  and 1500 at every offset from 3 to 24.
\<close>

lemma scenario_quarter_utc:
  "\<exists>c. cohorts (calculateRealCohortAnalysis 0 scenarioA ''quarter'' defaultSettings) = [c] \<and>
       CohortData.cohortName c = ''Q1 2023'' \<and>
       initialRevenue c = 1000 \<and>
       map_of (retentionByMonth c) 0 = Some 1000 \<and>
       map_of (retentionByMonth c) 1 = Some 1000 \<and>
       map_of (retentionByMonth c) 2 = Some 1000 \<and>
       (\<forall>m \<in> {3..24}. map_of (retentionByMonth c) m = Some 1500)"
proof -
  have late: "map_of (map (\<lambda>m. (m, 1500::real)) [3..<25]) m = Some 1500" if "m \<in> {3..24}" for m
    using that by (intro map_of_keyed) (simp only: set_upt, simp)
  have "cohorts (calculateRealCohortAnalysis 0 scenarioA ''quarter'' defaultSettings) =
          cohorts reportA"
    by (simp add: defaultSettings_def analysis_A_utc)
  then show ?thesis
    by (simp add: reportA_def late del: upt_Suc upt_rec_numeral One_nat_def)
qed

text \<open>
  The same three arguments give another report on another host: the report is not a
  function of the transactions, the cohort type and the settings alone.
\<close>

lemma report_depends_on_host:
  "calculateRealCohortAnalysis tzaBehind scenarioA ''quarter'' defaultSettings \<noteq>
   calculateRealCohortAnalysis 0 scenarioA ''quarter'' defaultSettings"
proof
  assume "calculateRealCohortAnalysis tzaBehind scenarioA ''quarter'' defaultSettings =
          calculateRealCohortAnalysis 0 scenarioA ''quarter'' defaultSettings"
  then have "map CohortData.cohortName
               (cohorts (calculateRealCohortAnalysis tzaBehind scenarioA ''quarter'' defaultSettings)) =
             map CohortData.cohortName (cohorts reportA)"
    by (simp add: defaultSettings_def analysis_A_utc)
  then show False
    by (simp add: names_A_behind reportA_def)
qed

text \<open>
  Claim C4. For customer A (new on 2023-01-01 with 1000, expansion on 2023-04-01 to
  1500), quarterly cohorts and the default settings, the report is to have one cohort,
  labelled \<open>Q1 2023\<close>, with 1000 at the offsets 0 to 2 and 1500 at the offsets 3 to 24.
  The code does not give this on every host. It reads the date of a transaction as
  midnight UTC (\<^verbatim>\<open>new Date('2023-01-01')\<close>), and takes the year and the month of the
  bucket, the start of the bucket and the target dates in local time. Five hours behind
  UTC the customer acquired on 1 January 2023 is in the cohort \<open>Q4 2022\<close>. Nine hours
  ahead of UTC the target date of offset 3, local midnight of 1 April, is before the
  expansion of 1 April, and the value at offset 3 is 1000, not 1500.
\<close>

theorem scenario_quarter_other_time_zones:
  "map CohortData.cohortName
     (cohorts (calculateRealCohortAnalysis tzaBehind scenarioA ''quarter'' defaultSettings))
     = [''Q4 2022''] \<and>
   map (\<lambda>c. map_of (retentionByMonth c) 3)
     (cohorts (calculateRealCohortAnalysis tzaAhead scenarioA ''quarter'' defaultSettings))
     = [Some 1000]"
  by (simp add: names_A_behind defaultSettings_def month_3_A_ahead)

subsection \<open>The cohort types of the interface\<close>


subsection \<open>The empty input\<close>

text \<open>
  Claim C7. For the empty sequence of transactions the analysis returns the report with no
  cohort and \<open>maxMonths = 0\<close>, for every cohort type and all settings. The source has no
  statement that throws, and the report is a plain value.
\<close>

theorem empty_input_empty_report:
  "calculateRealCohortAnalysis tza [] g s = \<lparr> cohorts = [], maxMonths = 0 \<rparr>"
  by (simp add: calculateRealCohortAnalysis_def processTransactionData_def customerMapOf_def
        cohortGroupsOf_def)

subsection \<open>Labels\<close>

text \<open>
  Claim C8. For every date \<open>d\<close>, with \<open>year\<close> and \<open>month\<close> its local year and its local
  month counted from 0: the label is the year, a hyphen and the two digits of \<open>month + 1\<close>
  (which is from 1 to 12) for the cohort type \<open>month\<close>; \<open>Q\<close>, the digit of
  \<open>month div 3 + 1\<close> (which is from 1 to 4), a space and the year for \<open>quarter\<close>; and the
  year for \<open>year\<close>. The year is written in decimal, without padding: these are four
  digits for the years 1000 to 9999.
\<close>

theorem label_format:
  "formatCohortName tza d ''month'' =
     toString (getFullYear tza d) @ ''-'' @ twoDigits (getMonth tza d + 1) \<and>
   formatCohortName tza d ''quarter'' =
     ''Q'' @ [digitChar (nat (getMonth tza d div 3 + 1))] @ '' '' @ toString (getFullYear tza d) \<and>
   formatCohortName tza d ''year'' = toString (getFullYear tza d) \<and>
   1 \<le> getMonth tza d + 1 \<and> getMonth tza d + 1 \<le> 12 \<and>
   1 \<le> getMonth tza d div 3 + 1 \<and> getMonth tza d div 3 + 1 \<le> 4 \<and>
   (1000 \<le> getFullYear tza d \<and> getFullYear tza d \<le> 9999 \<longrightarrow>
      length (toString (getFullYear tza d)) = 4)"
proof -
  have lo: "0 \<le> getMonth tza d" and hi: "getMonth tza d \<le> 11"
    using MonthFromTime_range [of "LocalTime tza d"] by (simp_all add: getMonth_def)
  have m1: "1 \<le> getMonth tza d + 1" and m12: "getMonth tza d + 1 \<le> 12"
    using lo hi by simp_all
  have q1: "1 \<le> getMonth tza d div 3 + 1" and q4: "getMonth tza d div 3 + 1 \<le> 4"
    using lo hi by arith+
  have month: "formatCohortName tza d ''month'' =
      toString (getFullYear tza d) @ ''-'' @ twoDigits (getMonth tza d + 1)"
    by (simp add: formatCohortName_def padStart_month [OF m1 m12])
  have quarter: "formatCohortName tza d ''quarter'' =
      ''Q'' @ [digitChar (nat (getMonth tza d div 3 + 1))] @ '' '' @ toString (getFullYear tza d)"
    by (simp add: formatCohortName_def toString_quarter [OF q1 q4])
  have year: "formatCohortName tza d ''year'' = toString (getFullYear tza d)"
    by (simp add: formatCohortName_def)
  have four: "1000 \<le> getFullYear tza d \<and> getFullYear tza d \<le> 9999 \<longrightarrow>
      length (toString (getFullYear tza d)) = 4"
    by (simp add: toString_year_length)
  from month quarter year m1 m12 q1 q4 four show ?thesis
    by simp
qed

theorem label_format_witness:
  "1000 \<le> getFullYear 0 1672531200000 \<and> getFullYear 0 1672531200000 \<le> 9999 \<and>
   formatCohortName 0 1672531200000 ''month'' = ''2023-01'' \<and>
   formatCohortName 0 1672531200000 ''quarter'' = ''Q1 2023'' \<and>
   formatCohortName 0 1672531200000 ''year'' = ''2023'' \<and>
   length (toString (getFullYear 0 1672531200000)) = 4"
  using label_format [of 0 1672531200000]
  by (simp add: year_utc month_utc toString_2023 twoDigits_def digitChar_def)

subsection \<open>The setting \<open>excludeChurnedAccounts\<close>\<close>

text \<open>
  Claim C9. For every transaction sequence, cohort type and value of
  \<open>includeExpansionARR\<close>, the report is the same for \<open>excludeChurnedAccounts = true\<close>
  and for \<open>excludeChurnedAccounts = false\<close>.
\<close>

theorem excludeChurnedAccounts_no_effect:
  "calculateRealCohortAnalysis tza txs g
     \<lparr> includeExpansionARR = e, excludeChurnedAccounts = True \<rparr> =
   calculateRealCohortAnalysis tza txs g
     \<lparr> includeExpansionARR = e, excludeChurnedAccounts = False \<rparr>"
  by (rule analysis_cong) simp

subsection \<open>\<open>maxMonths\<close>\<close>

text \<open>
  Claim C10. When every cohort of the report has the value 0 at every offset from 1 to 24,
  \<open>maxMonths\<close> is 0, whatever the values at offset 0 are. (For customer B, who is new
  with 1000 and churns in the same month, the cohort has \<open>initialRevenue = 1000\<close> and
  \<open>maxMonths\<close> is 0.)
\<close>

theorem maxMonths_ignores_month0:
  assumes zero: "\<forall>c \<in> set (cohorts (calculateRealCohortAnalysis tza txs g s)).
                   \<forall>k \<in> {1..24}. map_of (retentionByMonth c) k = Some 0"
  shows "maxMonths (calculateRealCohortAnalysis tza txs g s) = 0"
proof -
  let ?groups = "cohortGroupsOf tza g (processTransactionData txs)"
  have "groupMaxMonths tza g s 0 grp = 0" if grp: "grp \<in> set ?groups" for grp
  proof -
    obtain name members where nm: "grp = (name, members)"
      by (cases grp)
    have mem: "cohortDataOf tza g s (name, members)
                 \<in> set (cohorts (calculateRealCohortAnalysis tza txs g s))"
      using grp nm by (auto simp: analysis_closed)
    have "\<not> monthTotal tza (groupStartDate tza g members) members s k > 0"
      if k: "k \<in> set [1..<25]" for k
    proof -
      from k have "k \<in> {1..24}"
        by auto
      with zero mem
      have "map_of (retentionByMonth (cohortDataOf tza g s (name, members))) k = Some 0"
        by blast
      with retention_lookup [OF k, of tza g s name members] show ?thesis
        by simp
    qed
    then show ?thesis
      by (simp add: nm groupMaxMonths_def raiseMaxMonths_unchanged)
  qed
  then have "foldl (groupMaxMonths tza g s) 0 ?groups = 0"
    by (intro foldl_groupMaxMonths_unchanged) simp
  then show ?thesis
    by (simp add: analysis_closed)
qed

theorem maxMonths_ignores_month0_witness:
  "list_all (\<lambda>c. list_all (\<lambda>k. map_of (retentionByMonth c) k = Some 0) [1..<25])
     (cohorts (calculateRealCohortAnalysis 0 scenarioB ''month'' defaultSettings)) \<and>
   map initialRevenue (cohorts (calculateRealCohortAnalysis 0 scenarioB ''month'' defaultSettings))
     = [1000] \<and>
   maxMonths (calculateRealCohortAnalysis 0 scenarioB ''month'' defaultSettings) = 0"
proof -
  have later: "map_of (map (\<lambda>m. (m, 0::real)) [1..<25]) k = Some 0" if "k \<in> {1..24}" for k
    using that by (intro map_of_keyed) (simp only: set_upt, simp)
  have zero: "\<forall>c \<in> set (cohorts (calculateRealCohortAnalysis 0 scenarioB ''month'' defaultSettings)).
                \<forall>k \<in> {1..24}. map_of (retentionByMonth c) k = Some 0"
    by (simp add: analysis_B_utc)
       (simp add: reportB_def later del: upt_Suc upt_rec_numeral One_nat_def)
  have "{1..24} = set [1..<25::nat]"
    by (simp only: set_upt) auto
  with zero
  have all: "list_all (\<lambda>c. list_all (\<lambda>k. map_of (retentionByMonth c) k = Some 0) [1..<25])
     (cohorts (calculateRealCohortAnalysis 0 scenarioB ''month'' defaultSettings))"
    by (simp only: list_all_iff)
  have init: "map initialRevenue
      (cohorts (calculateRealCohortAnalysis 0 scenarioB ''month'' defaultSettings)) = [1000]"
    by (simp add: analysis_B_utc) (simp add: reportB_def)
  from maxMonths_ignores_month0 [OF zero] all init show ?thesis
    by blast
qed

end
